theory Spec2Isabelle
  imports Main "HOL-Library.AList"
begin

section \<open>Python values, dictionaries and strings\<close>

text \<open>
  The library passes keyword arguments and decoded JSON bodies around as dynamically
  typed Python values. \<open>pyval\<close> is the part of that universe the code under study can
  meet: \<open>None\<close>, booleans, integers, strings, lists, tuples and dictionaries with string
  keys. A dictionary is an association list in insertion order with distinct keys, since
  the code iterates over dictionaries. Strings are sequences of code points below 256.
  Floats and arbitrary objects are outside the model.
\<close>

datatype pyval =
    PNone
  | PBool bool
  | PInt int
  | PStr string
  | PList "pyval list"
  | PTuple "pyval list"
  | PDict "(string \<times> pyval) list"

type_synonym kwargs = "(string \<times> pyval) list"

text \<open>Truth value of a Python object, as \<open>if x:\<close> and \<open>not x\<close> test it.\<close>

fun truthy :: "pyval \<Rightarrow> bool" where
  "truthy PNone = False"
| "truthy (PBool b) = b"
| "truthy (PInt n) = (n \<noteq> 0)"
| "truthy (PStr s) = (s \<noteq> [])"
| "truthy (PList xs) = (xs \<noteq> [])"
| "truthy (PTuple xs) = (xs \<noteq> [])"
| "truthy (PDict kvs) = (kvs \<noteq> [])"

text \<open>\<open>k in d\<close>, \<open>d.get(k)\<close>, \<open>d.get(k, default)\<close>, \<open>d[k] = v\<close>, \<open>d.setdefault(k, v)\<close> and
  \<open>del d[k]\<close> on a dictionary with string keys.\<close>

definition has_key :: "kwargs \<Rightarrow> string \<Rightarrow> bool" where
  "has_key d k = (map_of d k \<noteq> None)"

definition py_get_default :: "kwargs \<Rightarrow> string \<Rightarrow> pyval \<Rightarrow> pyval" where
  "py_get_default d k dflt = (case map_of d k of None \<Rightarrow> dflt | Some v \<Rightarrow> v)"

definition py_get :: "kwargs \<Rightarrow> string \<Rightarrow> pyval" where
  "py_get d k = py_get_default d k PNone"

definition py_set :: "kwargs \<Rightarrow> string \<Rightarrow> pyval \<Rightarrow> kwargs" where
  "py_set d k v = AList.update k v d"

definition py_setdefault :: "kwargs \<Rightarrow> string \<Rightarrow> pyval \<Rightarrow> kwargs" where
  "py_setdefault d k v = (if has_key d k then d else d @ [(k, v)])"

definition py_del :: "kwargs \<Rightarrow> string \<Rightarrow> kwargs" where
  "py_del d k = AList.delete k d"

text \<open>Python errors. The validators' errors carry the operation and parameter names
  their messages are built from; the other constructors stand for the exceptions the
  interpreter, the \<open>requests\<close> library or the operating system raise.\<close>

datatype exn =
    MissingRequired string string
  | MissingAny string "string list"
  | Incompatible string string string
  | UnexpectedValue string pyval string
  | PinLength string string nat
  | PinNonNumeric string string
  | FileNotFound string
  | PackageNotSigned string string
  | APIException "pyval list" int
  | HTTPError int
  | JSONDecodeError
  | ConnectionFailure
  | PyTypeError
  | PyAttributeError
  | PyKeyError
  | PyIndexError
  | PyValueError
  | PyOSError string

text \<open>Iterating over a value (\<open>for x in v\<close>, \<open>[*v]\<close>): the elements of a list or tuple,
  the one-character strings of a string, the keys of a dictionary; anything else raises
  \<open>TypeError\<close>.\<close>

fun py_iter :: "pyval \<Rightarrow> exn + pyval list" where
  "py_iter (PList xs) = Inr xs"
| "py_iter (PTuple xs) = Inr xs"
| "py_iter (PStr s) = Inr (map (\<lambda>c. PStr [c]) s)"
| "py_iter (PDict kvs) = Inr (map (\<lambda>kv. PStr (fst kv)) kvs)"
| "py_iter PNone = Inl PyTypeError"
| "py_iter (PBool b) = Inl PyTypeError"
| "py_iter (PInt n) = Inl PyTypeError"

text \<open>\<open>len(v)\<close>.\<close>

fun py_len :: "pyval \<Rightarrow> exn + nat" where
  "py_len (PList xs) = Inr (length xs)"
| "py_len (PTuple xs) = Inr (length xs)"
| "py_len (PStr s) = Inr (length s)"
| "py_len (PDict kvs) = Inr (length kvs)"
| "py_len PNone = Inl PyTypeError"
| "py_len (PBool b) = Inl PyTypeError"
| "py_len (PInt n) = Inl PyTypeError"

text \<open>\<open>v.get(k)\<close> on an arbitrary value: only a dictionary has the method.\<close>

fun py_dict_get :: "pyval \<Rightarrow> string \<Rightarrow> exn + pyval" where
  "py_dict_get (PDict kvs) k = Inr (py_get kvs k)"
| "py_dict_get PNone k = Inl PyAttributeError"
| "py_dict_get (PBool b) k = Inl PyAttributeError"
| "py_dict_get (PInt n) k = Inl PyAttributeError"
| "py_dict_get (PStr s) k = Inl PyAttributeError"
| "py_dict_get (PList xs) k = Inl PyAttributeError"
| "py_dict_get (PTuple xs) k = Inl PyAttributeError"

text \<open>\<open>str.isdigit\<close> and the characters \<open>str.strip()\<close> removes, on code points below 256:
  the digits are \<open>0\<close> to \<open>9\<close> and the superscripts U+00B2, U+00B3, U+00B9; white space is
  U+0009 to U+000D, U+001C to U+0020, U+0085 and U+00A0.\<close>

definition digit_char :: "char \<Rightarrow> bool" where
  "digit_char c = (let n = (of_char c :: nat) in (48 \<le> n \<and> n \<le> 57) \<or> n = 178 \<or> n = 179 \<or> n = 185)"

definition isdigit :: "string \<Rightarrow> bool" where
  "isdigit s = (s \<noteq> [] \<and> list_all digit_char s)"

definition space_char :: "char \<Rightarrow> bool" where
  "space_char c = (let n = (of_char c :: nat) in (9 \<le> n \<and> n \<le> 13) \<or> (28 \<le> n \<and> n \<le> 32) \<or> n = 133 \<or> n = 160)"

definition strip :: "string \<Rightarrow> string" where
  "strip s = rev (dropWhile space_char (rev (dropWhile space_char s)))"

text \<open>\<open>sub in s\<close> on strings and \<open>s.split(c)\<close> for a one-character separator.\<close>

fun contains :: "string \<Rightarrow> string \<Rightarrow> bool" where
  "contains sub [] = (sub = [])"
| "contains sub (c # cs) = (take (length sub) (c # cs) = sub \<or> contains sub cs)"

fun split_on :: "char \<Rightarrow> string \<Rightarrow> string list" where
  "split_on c [] = [[]]"
| "split_on c (x # xs) =
     (if x = c then [] # split_on c xs
      else (case split_on c xs of [] \<Rightarrow> [[x]] | h # t \<Rightarrow> (x # h) # t))"

section \<open>Parameter validators (validators.py)\<close>

text \<open>
  The per-operation table \<open>_method_kwargs\<close> maps an operation name to its validator
  configuration. \<open>method_params\<close> reads five of its keys; a key that is absent reads as
  \<open>None\<close>. The repository's \<open>inc_params\<close> are tuples of lists of names, and the docstring
  of \<open>_generate_bad_combinations\<close> also allows a flat list of names, so an element of
  \<open>inc_params\<close> is a name or a group of names. The values of a \<open>validate\<close> entry are
  scalars in every table of the repository.
\<close>

datatype inc_elem = IName string | IGroup "string list"

datatype scalar = SNone | SBool bool | SInt int | SStr string

record method_conf =
  any_params :: "string list option"
  req_params :: "string list option"
  inc_params :: "inc_elem list option"
  val_params :: "(string \<times> scalar list) list option"
  file_param :: "string option"

definition no_conf :: method_conf where
  "no_conf = \<lparr>any_params = None, req_params = None, inc_params = None,
     val_params = None, file_param = None\<rparr>"

text \<open>\<open>itertools.combinations(p, n)\<close> for \<open>n \<ge> 0\<close>, in the library's order.\<close>

fun combinations :: "'a list \<Rightarrow> nat \<Rightarrow> 'a list list" where
  "combinations xs 0 = [[]]"
| "combinations [] (Suc n) = []"
| "combinations (x # xs) (Suc n) = map ((#) x) (combinations xs n) @ combinations xs (Suc n)"

text \<open>The members of one element of \<open>inc_params\<close> as the loop \<open>for p in params\<close> sees
  them: a group's names, or the characters of a single name.\<close>

fun inc_members :: "inc_elem \<Rightarrow> string list" where
  "inc_members (IGroup ns) = ns"
| "inc_members (IName s) = map (\<lambda>c. [c]) s"

text \<open>validators.py, lines 17-29. For each \<open>p\<close> the combinations of size \<open>len(p) - 1\<close> are
  collected; \<open>combinations(p, -1)\<close> raises \<open>ValueError\<close> for an empty \<open>p\<close>. The function
  returns \<open>None\<close> when nothing was collected.\<close>

fun bad_combinations_of :: "inc_elem list \<Rightarrow> exn + string list list" where
  "bad_combinations_of [] = Inr []"
| "bad_combinations_of (p # ps) =
     (if inc_members p = [] then Inl PyValueError
      else (case bad_combinations_of ps of
              Inl e \<Rightarrow> Inl e
            | Inr rest \<Rightarrow> Inr (combinations (inc_members p) (length (inc_members p) - 1) @ rest)))"

definition generate_bad_combinations :: "inc_elem list \<Rightarrow> exn + string list list option" where
  "generate_bad_combinations params =
     (case bad_combinations_of params of
        Inl e \<Rightarrow> Inl e
      | Inr result \<Rightarrow> Inr (if result \<noteq> [] then Some result else None))"

text \<open>validators.py, lines 32-39.\<close>

fun validate_required :: "kwargs \<Rightarrow> string list \<Rightarrow> string \<Rightarrow> exn + unit" where
  "validate_required kw [] fn_name = Inr ()"
| "validate_required kw (req_param # rest) fn_name =
     (if \<not> has_key kw req_param then Inl (MissingRequired fn_name req_param)
      else validate_required kw rest fn_name)"

text \<open>validators.py, lines 42-48.\<close>

definition validate_any :: "kwargs \<Rightarrow> string list \<Rightarrow> string \<Rightarrow> exn + unit" where
  "validate_any kw any_ps fn_name =
     (if \<not> list_ex (has_key kw) any_ps then Inl (MissingAny fn_name any_ps) else Inr ())"

text \<open>validators.py, lines 51-62. The three nested loops raise at the first triple
  \<open>(kwarg, combo, bad_kwarg)\<close>, in iteration order, that passes the test of line 61. With no
  combinations (\<open>None\<close>) the inner loop raises \<open>TypeError\<close> as soon as there is a keyword
  argument to iterate over.\<close>

definition incompatible_hits :: "kwargs \<Rightarrow> inc_elem list \<Rightarrow> string list list \<Rightarrow> (string \<times> string) list" where
  "incompatible_hits kw inc_ps bad_combos =
     concat (map (\<lambda>kwarg.
       concat (map (\<lambda>combo.
         concat (map (\<lambda>bad_kwarg.
           if has_key kw bad_kwarg \<and> IName kwarg \<in> set inc_ps \<and> \<not> bad_kwarg = kwarg
           then [(bad_kwarg, kwarg)] else []) combo)) bad_combos)) (map fst kw))"

definition validate_incompatible :: "kwargs \<Rightarrow> inc_elem list \<Rightarrow> string \<Rightarrow> exn + unit" where
  "validate_incompatible kw inc_ps fn_name =
     (case generate_bad_combinations inc_ps of
        Inl e \<Rightarrow> Inl e
      | Inr None \<Rightarrow> (if kw = [] then Inr () else Inl PyTypeError)
      | Inr (Some bad_combos) \<Rightarrow>
          (case incompatible_hits kw inc_ps bad_combos of
             [] \<Rightarrow> Inr ()
           | (bad_kwarg, kwarg) # _ \<Rightarrow> Inl (Incompatible fn_name bad_kwarg kwarg)))"

text \<open>\<open>value in values\<close> for a list of scalars: Python compares by \<open>==\<close>, under which
  \<open>True == 1\<close> and \<open>False == 0\<close>.\<close>

fun py_eq_scalar :: "pyval \<Rightarrow> scalar \<Rightarrow> bool" where
  "py_eq_scalar PNone SNone = True"
| "py_eq_scalar (PBool a) (SBool b) = (a = b)"
| "py_eq_scalar (PBool a) (SInt n) = ((if a then 1 else 0) = n)"
| "py_eq_scalar (PInt m) (SBool b) = (m = (if b then 1 else 0))"
| "py_eq_scalar (PInt m) (SInt n) = (m = n)"
| "py_eq_scalar (PStr s) (SStr t) = (s = t)"
| "py_eq_scalar v s = False"

text \<open>validators.py, lines 65-75.\<close>

fun validate_param_opts :: "kwargs \<Rightarrow> (string \<times> scalar list) list \<Rightarrow> string \<Rightarrow> exn + unit" where
  "validate_param_opts kw [] fn_name = Inr ()"
| "validate_param_opts kw ((param, vals) # rest) fn_name =
     (let v = py_get kw param in
      if truthy v \<and> \<not> list_ex (py_eq_scalar v) vals
      then Inl (UnexpectedValue fn_name v param)
      else validate_param_opts kw rest fn_name)"

section \<open>URL building and keyword classification (utils.py)\<close>

text \<open>\<open>sep.join(parts)\<close>.\<close>

fun join :: "string \<Rightarrow> string list \<Rightarrow> string" where
  "join sep [] = []"
| "join sep [p] = p"
| "join sep (p # q # ps) = p @ sep @ join sep (q # ps)"

text \<open>\<open>re.sub\<close> for a pattern that matches one fixed, non-empty text: the matches are
  replaced from left to right and do not overlap.\<close>

function re_sub_literal :: "string \<Rightarrow> string \<Rightarrow> string \<Rightarrow> string" where
  "re_sub_literal pat rep [] = []"
| "re_sub_literal pat rep (c # cs) =
     (if pat \<noteq> [] \<and> take (length pat) (c # cs) = pat
      then rep @ re_sub_literal pat rep (drop (length pat - 1) cs)
      else c # re_sub_literal pat rep cs)"
  by pat_completeness auto
termination
  by (relation "measure (\<lambda>(pat, rep, s). length s)") auto

text \<open>utils.py, line 59: \<open>scheme_reg = re.compile(r":/{3,}")\<close>, substituted by \<open>://\<close>. The
  pattern is a colon and the longest run of at least three slashes after it.\<close>

function scheme_sub :: "string \<Rightarrow> string" where
  "scheme_sub [] = []"
| "scheme_sub (c # cs) =
     (if c = CHR '':'' \<and> 3 \<le> length (takeWhile (\<lambda>x. x = CHR ''/'') cs)
      then '':/'' @ ''/'' @ scheme_sub (dropWhile (\<lambda>x. x = CHR ''/'') cs)
      else c # scheme_sub cs)"
  by pat_completeness auto
termination
  by (relation "measure length") (auto simp: length_dropWhile_le less_Suc_eq_le)

text \<open>utils.py, line 58: \<open>fslash_reg = re.compile(rf"{sep}{2,}")\<close>. The literal is an
  f-string, so \<open>{2,}\<close> is a replacement field holding the tuple \<open>(2,)\<close>, and the compiled
  pattern for the default separator is \<open>/(2,)\<close>: a slash followed by a group that matches
  the two characters \<open>2,\<close>. It matches the text \<open>/2,\<close> and nothing else.\<close>

definition fslash_match :: string where
  "fslash_match = ''/2,''"

text \<open>utils.py, lines 52-63, for the default separator (no caller passes another one).
  The path segments are strings, as every endpoint declares them; the falsy ones are the
  empty strings.\<close>

definition urljoin :: "string list \<Rightarrow> string \<Rightarrow> string" where
  "urljoin paths base =
     (let joined = re_sub_literal fslash_match ''/'' (join ''/'' (filter (\<lambda>p. p \<noteq> []) paths));
          url = scheme_sub (base @ (if \<not> (base \<noteq> [] \<and> last base = CHR ''/'') then ''/'' else []) @ joined)
      in url)"

text \<open>The client object (__init__.py, lines 17-36): class constants and the attributes the
  endpoints set. The four numeric settings are read from the process environment when the
  class is created.\<close>

record connector =
  api_vers :: string
  endpoint :: string
  dry_run :: bool
  HTTP_CONNECT_TIMEOUT :: int
  HTTP_READ_TIMEOUT :: int
  HTTP_MAX_RETRIES :: int
  HTTP_RETRY_BACKOFF :: int

definition BASE_URL :: string where
  "BASE_URL = ''https://a.simplemdm.com/api''"

definition HTTP_RETRY_STATUS_LIST :: "int list" where
  "HTTP_RETRY_STATUS_LIST = [429, 500, 502, 503, 504]"

definition HTTP_IGNORE_STATUS_ERR :: "int list" where
  "HTTP_IGNORE_STATUS_ERR = [200, 201, 202, 500]"

text \<open>utils.py, lines 66-69.\<close>

definition generate_url :: "connector \<Rightarrow> string list \<Rightarrow> string" where
  "generate_url self args = urljoin ([api_vers self, endpoint self] @ args) BASE_URL"

text \<open>utils.py, lines 10-28.\<close>

definition function_kwargs :: "string list" where
  "function_kwargs = [''ignore_statuses'', ''retry_statuses'', ''file_upload'']"

definition requests_kwargs :: "string list" where
  "requests_kwargs = [''method'', ''url'', ''params'', ''data'', ''headers'', ''cookies'',
     ''files'', ''auth'', ''timeout'', ''allow_redirects'', ''proxies'', ''hooks'', ''stream'',
     ''verify'', ''cert'', ''json'']"

text \<open>utils.py, lines 72-92. The loop sorts every keyword into one of three
  dictionaries; the assignment after it stores the left-over ones under \<open>params\<close>,
  replacing a \<open>params\<close> argument of the caller.\<close>

definition consume_kwargs :: "kwargs \<Rightarrow> kwargs \<times> kwargs" where
  "consume_kwargs kw =
     (let rqst_kwargs = filter (\<lambda>kv. fst kv \<in> set requests_kwargs) kw;
          func_kwargs = filter (\<lambda>kv. fst kv \<notin> set requests_kwargs \<and> fst kv \<in> set function_kwargs) kw;
          param_kwargs = filter (\<lambda>kv. fst kv \<notin> set requests_kwargs \<and> fst kv \<notin> set function_kwargs) kw
      in (py_set rqst_kwargs ''params'' (PDict param_kwargs), func_kwargs))"

text \<open>utils.py, lines 95-101: the caller's statuses come first, the class constants
  after them. Unpacking a value that is not iterable raises \<open>TypeError\<close>.\<close>

definition consume_func_kwargs :: "kwargs \<Rightarrow> exn + pyval list \<times> pyval list" where
  "consume_func_kwargs kw =
     (case py_iter (py_get_default kw ''ignore_statuses'' (PList [])) of
        Inl e \<Rightarrow> Inl e
      | Inr ign \<Rightarrow>
          (case py_iter (py_get_default kw ''retry_statuses'' (PList [])) of
             Inl e \<Rightarrow> Inl e
           | Inr rty \<Rightarrow> Inr (ign @ map PInt HTTP_IGNORE_STATUS_ERR, rty @ map PInt HTTP_RETRY_STATUS_LIST)))"

text \<open>utils.py, lines 113-118: the retry configuration of the adapter.\<close>

record adapter =
  max_retries :: int
  status_forcelist :: "pyval list"
  backoff_factor :: int

definition session_retry :: "connector \<Rightarrow> pyval list \<Rightarrow> adapter" where
  "session_retry self retry =
     \<lparr>max_retries = HTTP_MAX_RETRIES self, status_forcelist = retry,
      backoff_factor = HTTP_RETRY_BACKOFF self\<rparr>"

text \<open>A response of the service: its status code and its body decoded as JSON, \<open>None\<close>
  when the body is not JSON (\<open>response.json()\<close> raises then).\<close>

record response =
  status_code :: int
  json_body :: "pyval option"

definition response_json :: "response \<Rightarrow> exn + pyval" where
  "response_json r = (case json_body r of None \<Rightarrow> Inl JSONDecodeError | Some v \<Rightarrow> Inr v)"

text \<open>\<open>Response.raise_for_status\<close> of the \<open>requests\<close> library raises for the client and
  server error codes.\<close>

definition raise_for_status :: "response \<Rightarrow> exn + unit" where
  "raise_for_status r =
     (if 400 \<le> status_code r \<and> status_code r < 600 then Inl (HTTPError (status_code r)) else Inr ())"

text \<open>utils.py, lines 36-49. The titles of the error objects are collected in a loop
  that skips the falsy ones; the exception carries them, in order, with the status code
  (its message is their quoted, comma-separated list followed by the code). A body that
  is not JSON is skipped; a JSON body without the method \<open>get\<close> raises \<open>AttributeError\<close>.\<close>

fun error_titles :: "pyval list \<Rightarrow> exn + pyval list" where
  "error_titles [] = Inr []"
| "error_titles (err # errs) =
     (case py_dict_get err ''title'' of
        Inl e \<Rightarrow> Inl e
      | Inr t \<Rightarrow>
          (case error_titles errs of
             Inl e \<Rightarrow> Inl e
           | Inr ts \<Rightarrow> Inr (if truthy t then t # ts else ts)))"

definition api_error_check :: "response \<Rightarrow> exn + unit" where
  "api_error_check r =
     (case response_json r of
        Inl e \<Rightarrow> Inr ()
      | Inr body \<Rightarrow>
          (case py_dict_get body ''errors'' of
             Inl e \<Rightarrow> Inl e
           | Inr api_errors \<Rightarrow>
               if api_errors \<noteq> PNone then
                 (case py_iter api_errors of
                    Inl e \<Rightarrow> Inl e
                  | Inr errs \<Rightarrow>
                      (case error_titles errs of
                         Inl e \<Rightarrow> Inl e
                       | Inr titles \<Rightarrow> Inl (APIException titles (status_code r))))
               else Inr ()))"

text \<open>\<open>x in statuses\<close> for an integer \<open>x\<close> and a list of arbitrary values.\<close>

fun py_eq_int :: "int \<Rightarrow> pyval \<Rightarrow> bool" where
  "py_eq_int n (PInt m) = (n = m)"
| "py_eq_int n (PBool b) = (n = (if b then 1 else 0))"
| "py_eq_int n v = False"

definition status_in :: "int \<Rightarrow> pyval list \<Rightarrow> bool" where
  "status_in n statuses = list_ex (py_eq_int n) statuses"

section \<open>The world outside the library\<close>

text \<open>
  One call of \<open>Session.request\<close>: the verb, the URL, the keyword arguments, the file
  opened for an upload (the form field and the resolved path whose open handle replaces
  the path in \<open>files\<close>) and the retry adapter mounted on the session at that moment.
\<close>

record call =
  c_verb :: string
  c_url :: string
  c_kwargs :: kwargs
  c_upload :: "(string \<times> string) option"
  c_adapter :: "adapter option"

text \<open>The mutable state: the adapter mounted on the session, the dry-run lines printed
  so far (verb, URL and keyword arguments of each), and the state of the network, which
  only \<open>Session.request\<close> changes.\<close>

record 'n world =
  mounted :: "adapter option"
  printed :: "(string \<times> string \<times> kwargs) list"
  net :: 'n

text \<open>What the library calls but does not define: the transport, the file system, the
  \<open>pkgutil\<close> program (its return code and standard output) and the text Python prints for
  a list, tuple or dictionary. \<open>Path.exists\<close> answers or raises: the operating system
  refuses some paths, such as one with a name of more than 255 bytes, with an \<open>OSError\<close>
  that \<open>pathlib\<close> passes on.\<close>

record 'n env =
  session_request :: "call \<Rightarrow> 'n \<Rightarrow> (exn + response) \<times> 'n"
  path_resolve :: "string \<Rightarrow> string"
  path_open_rb :: "string \<Rightarrow> bool"
  path_exists :: "string \<Rightarrow> exn + bool"
  run_pkgutil :: "string \<Rightarrow> exn + int \<times> string"
  py_repr :: "pyval \<Rightarrow> string"

text \<open>\<open>str(v)\<close>.\<close>

fun dec_digits :: "nat \<Rightarrow> string" where
  "dec_digits n =
     (if n < 10 then [char_of (48 + n)] else dec_digits (n div 10) @ [char_of (48 + n mod 10)])"

definition str_of_int :: "int \<Rightarrow> string" where
  "str_of_int i = (if i < 0 then CHR ''-'' # dec_digits (nat (- i)) else dec_digits (nat i))"

fun py_str :: "'n env \<Rightarrow> pyval \<Rightarrow> string" where
  "py_str E PNone = ''None''"
| "py_str E (PBool b) = (if b then ''True'' else ''False'')"
| "py_str E (PInt n) = str_of_int n"
| "py_str E (PStr s) = s"
| "py_str E v = py_repr E v"

text \<open>\<open>Path(s).name\<close> and \<open>Path(s).suffix\<close> of \<open>pathlib\<close>: the name is the last component,
  empty components and \<open>.\<close> aside; the suffix starts at the last dot of the name, unless
  that dot is its first or its last character.\<close>

definition path_name :: "string \<Rightarrow> string" where
  "path_name s =
     (case filter (\<lambda>p. p \<noteq> [] \<and> p \<noteq> ''.'') (split_on CHR ''/'' s) of
        [] \<Rightarrow> []
      | p # ps \<Rightarrow> last (p # ps))"

definition path_suffix :: "string \<Rightarrow> string" where
  "path_suffix s =
     (let name = path_name s;
          tail = rev (takeWhile (\<lambda>c. c \<noteq> CHR ''.'') (rev name))
      in if CHR ''.'' \<in> set name \<and> Suc (length tail) < length name \<and> tail \<noteq> []
         then CHR ''.'' # tail else [])"

text \<open>utils.py, lines 104-110, and validators.py, lines 105-112. The exceptions carry
  the path as the caller wrote it.\<close>

definition pkg_is_signed :: "'n env \<Rightarrow> string \<Rightarrow> exn + bool" where
  "pkg_is_signed E pkg =
     (case run_pkgutil E pkg of
        Inl e \<Rightarrow> Inl e
      | Inr (returncode, out) \<Rightarrow>
          Inr (returncode = 0 \<and> \<not> contains ''Status: no signature'' (strip out)))"

definition validate_package :: "'n env \<Rightarrow> string \<Rightarrow> string \<Rightarrow> exn + unit" where
  "validate_package E pkg fn_name =
     (case path_exists E pkg of
        Inl e \<Rightarrow> Inl e
      | Inr found \<Rightarrow>
          if \<not> found then Inl (FileNotFound pkg)
          else (case pkg_is_signed E pkg of
                  Inl e \<Rightarrow> Inl e
                | Inr signed \<Rightarrow> if \<not> signed then Inl (PackageNotSigned fn_name pkg) else Inr ()))"

section \<open>The decorators (decorators.py)\<close>

text \<open>
  An operation takes its positional arguments (after \<open>self\<close>), its keyword arguments and
  the world, and returns its result or the exception it raised, with the new world. A
  decorator maps an operation to an operation.
\<close>

type_synonym ('n, 'a) operation = "string list \<Rightarrow> kwargs \<Rightarrow> 'n world \<Rightarrow> (exn + 'a) \<times> 'n world"

text \<open>decorators.py, lines 9-51. \<open>table\<close> is \<open>self._method_kwargs\<close> and \<open>fn_name\<close> is
  \<open>fn.__name__\<close>, which \<open>functools.wraps\<close> carries through the inner decorators.\<close>

definition file_check :: "'n env \<Rightarrow> method_conf \<Rightarrow> pyval \<Rightarrow> string \<Rightarrow> exn + unit" where
  "file_check E conf file fn_name =
     (if truthy file \<and> file_param conf = Some ''binary'' then
        (case file of
           PStr path \<Rightarrow>
             if path_suffix path = ''.pkg'' then validate_package E path fn_name else Inr ()
         | _ \<Rightarrow> Inl PyTypeError)
      else Inr ())"

definition file_switch :: "method_conf \<Rightarrow> pyval \<Rightarrow> kwargs \<Rightarrow> kwargs" where
  "file_switch conf file kw =
     (case file_param conf of
        None \<Rightarrow> kw
      | Some fp \<Rightarrow>
          if \<not> truthy (py_get kw ''files'') \<and> truthy file
          then py_del (py_set (py_set kw ''files'' (PDict [(fp, file)])) ''file_upload'' (PStr fp)) fp
          else kw)"

definition method_params ::
  "'n env \<Rightarrow> (string \<times> method_conf) list \<Rightarrow> string \<Rightarrow> ('n, 'a) operation \<Rightarrow> ('n, 'a) operation" where
  "method_params E table fn_name fn args kw w =
     (let conf = (case map_of table fn_name of None \<Rightarrow> no_conf | Some c \<Rightarrow> c);
          file = (case file_param conf of None \<Rightarrow> PNone | Some fp \<Rightarrow> py_get kw fp)
      in case (case req_params conf of
                 None \<Rightarrow> Inr ()
               | Some ps \<Rightarrow> if ps \<noteq> [] then validate_required kw ps fn_name else Inr ()) of
           Inl e \<Rightarrow> (Inl e, w)
         | Inr _ \<Rightarrow>
        (case (case any_params conf of
                 None \<Rightarrow> Inr ()
               | Some ps \<Rightarrow> if ps \<noteq> [] then validate_any kw ps fn_name else Inr ()) of
           Inl e \<Rightarrow> (Inl e, w)
         | Inr _ \<Rightarrow>
        (case (case inc_params conf of
                 None \<Rightarrow> Inr ()
               | Some ps \<Rightarrow> if ps \<noteq> [] then validate_incompatible kw ps fn_name else Inr ()) of
           Inl e \<Rightarrow> (Inl e, w)
         | Inr _ \<Rightarrow>
        (case (case val_params conf of
                 None \<Rightarrow> Inr ()
               | Some ps \<Rightarrow> if ps \<noteq> [] then validate_param_opts kw ps fn_name else Inr ()) of
           Inl e \<Rightarrow> (Inl e, w)
         | Inr _ \<Rightarrow>
        (case file_check E conf file fn_name of
           Inl e \<Rightarrow> (Inl e, w)
         | Inr _ \<Rightarrow> fn args (file_switch conf file kw) w)))))"

text \<open>validators.py, lines 78-102. The value is read from the dictionary stored under
  the keyword \<open>params\<close>. \<open>wrapper_b\<close> ends after the two checks: it has no call of the
  decorated function and no \<open>return\<close>, so it returns \<open>None\<close>.\<close>

fun all_isdigit :: "pyval list \<Rightarrow> exn + bool" where
  "all_isdigit [] = Inr True"
| "all_isdigit (PStr t # ns) = (if isdigit t then all_isdigit ns else Inr False)"
| "all_isdigit (v # ns) = Inl PyAttributeError"

definition validate_pin ::
  "string \<Rightarrow> nat \<Rightarrow> string \<Rightarrow> ('n, 'a option) operation \<Rightarrow> ('n, 'a option) operation" where
  "validate_pin param len fn_name fn args kw w =
     (case py_dict_get (py_get_default kw ''params'' (PDict [])) param of
        Inl e \<Rightarrow> (Inl e, w)
      | Inr pin \<Rightarrow>
          if truthy pin then
            (case py_len pin of
               Inl e \<Rightarrow> (Inl e, w)
             | Inr n \<Rightarrow>
                 if \<not> n = len then (Inl (PinLength fn_name param len), w)
                 else (case py_iter pin of
                         Inl e \<Rightarrow> (Inl e, w)
                       | Inr ns \<Rightarrow>
                           (case all_isdigit ns of
                              Inl e \<Rightarrow> (Inl e, w)
                            | Inr ok \<Rightarrow>
                                if \<not> ok then (Inl (PinNonNumeric fn_name param), w)
                                else (Inr None, w))))
          else (Inr None, w))"

text \<open>decorators.py, lines 152-173.\<close>

definition url_suffixes ::
  "'n env \<Rightarrow> string \<Rightarrow> string list \<Rightarrow> ('n, 'a) operation \<Rightarrow> ('n, 'a) operation" where
  "url_suffixes E sfx params_as_suffixes fn args kw w =
     (let paths = join ''/'' (sfx # map (\<lambda>kv. py_str E (snd kv))
                    (filter (\<lambda>kv. fst kv \<in> set params_as_suffixes) kw));
          args1 = (if args \<noteq> [] then args @ [paths] else [paths]);
          args2 = [join ''/'' args1]
      in fn args2 kw w)"

text \<open>decorators.py, lines 96-149. The decorator is applied to the five request methods
  of the client with the verbs \<open>delete\<close>, \<open>get\<close>, \<open>patch\<close>, \<open>post\<close> and \<open>put\<close>, which pass its
  check of line 102 and reach the wrapper in upper case; the wrapper does not call the
  method it decorates. \<open>upload_file\<close> is lines 126 and 128: the path stored under the
  upload field is resolved and opened for reading. \<open>rqst_kwargs_of\<close> is lines 110 and
  116-120: the keyword arguments the transport is called with.\<close>

fun upload_file :: "'n env \<Rightarrow> pyval \<Rightarrow> pyval \<Rightarrow> exn + string \<times> string" where
  "upload_file E (PDict files) (PStr fieldname) =
     (case py_get files fieldname of
        PStr path \<Rightarrow>
          (let file = path_resolve E path
           in if path_open_rb E file then Inr (fieldname, file) else Inl (PyOSError file))
      | _ \<Rightarrow> Inl PyTypeError)"
| "upload_file E (PDict files) fieldname = Inl PyTypeError"
| "upload_file E files fieldname = Inl PyAttributeError"

definition rqst_kwargs_of :: "connector \<Rightarrow> kwargs \<Rightarrow> kwargs" where
  "rqst_kwargs_of self kw =
     (let rqst_kwargs = fst (consume_kwargs kw);
          fieldname = py_get (snd (consume_kwargs kw)) ''file_upload'';
          rqst1 = (if \<not> truthy fieldname \<and> \<not> truthy (py_get rqst_kwargs ''files'')
                   then py_setdefault rqst_kwargs ''timeout''
                          (PTuple [PInt (HTTP_CONNECT_TIMEOUT self), PInt (HTTP_READ_TIMEOUT self)])
                   else rqst_kwargs)
      in if truthy (py_get rqst1 ''json'')
         then py_set rqst1 ''headers'' (PDict [(''Content-Type'', PStr ''application/json'')])
         else rqst1)"

definition request ::
  "'n env \<Rightarrow> connector \<Rightarrow> string \<Rightarrow> ('n, response option) operation" where
  "request E self verb args kw w =
     (let func_kwargs = snd (consume_kwargs kw) in
      case consume_func_kwargs func_kwargs of
        Inl e \<Rightarrow> (Inl e, w)
      | Inr (ignore, retry) \<Rightarrow>
          (let fieldname = py_get func_kwargs ''file_upload'';
               url = generate_url self args;
               rqst_kwargs = rqst_kwargs_of self kw;
               w1 = w\<lparr>mounted := Some (session_retry self retry)\<rparr>
           in if \<not> dry_run self then
                if truthy fieldname \<and> truthy (py_get rqst_kwargs ''files'') then
                  (case upload_file E (py_get rqst_kwargs ''files'') fieldname of
                     Inl e \<Rightarrow> (Inl e, w1)
                   | Inr f \<Rightarrow>
                       (case session_request E
                               \<lparr>c_verb = verb, c_url = url, c_kwargs = rqst_kwargs,
                                c_upload = Some f, c_adapter = mounted w1\<rparr> (net w1) of
                          (Inl e, n) \<Rightarrow> (Inl e, w1\<lparr>net := n\<rparr>)
                        | (Inr r, n) \<Rightarrow>
                            if \<not> status_in (status_code r) ignore then
                              (case raise_for_status r of
                                 Inl e \<Rightarrow> (Inl e, w1\<lparr>net := n\<rparr>)
                               | Inr _ \<Rightarrow> (Inr (Some r), w1\<lparr>net := n\<rparr>))
                            else (Inr (Some r), w1\<lparr>net := n\<rparr>)))
                else
                  (case session_request E
                          \<lparr>c_verb = verb, c_url = url, c_kwargs = rqst_kwargs,
                           c_upload = None, c_adapter = mounted w1\<rparr> (net w1) of
                     (Inl e, n) \<Rightarrow> (Inl e, w1\<lparr>net := n\<rparr>)
                   | (Inr r, n) \<Rightarrow>
                       if \<not> status_in (status_code r) ignore then
                         (case api_error_check r of
                            Inl e \<Rightarrow> (Inl e, w1\<lparr>net := n\<rparr>)
                          | Inr _ \<Rightarrow>
                              (case raise_for_status r of
                                 Inl e \<Rightarrow> (Inl e, w1\<lparr>net := n\<rparr>)
                               | Inr _ \<Rightarrow> (Inr (Some r), w1\<lparr>net := n\<rparr>)))
                       else (Inr (Some r), w1\<lparr>net := n\<rparr>))
              else (Inr None, w1\<lparr>printed := printed w1 @ [(verb, url, rqst_kwargs)]\<rparr>)))"

text \<open>The file a request uploads, as the branch of line 125 decides it: none when the
  request has no upload field or no \<open>files\<close>, else the file \<open>upload_file\<close> opens.\<close>

definition upload_of :: "'n env \<Rightarrow> connector \<Rightarrow> kwargs \<Rightarrow> exn + (string \<times> string) option" where
  "upload_of E self kw =
     (let fieldname = py_get (snd (consume_kwargs kw)) ''file_upload'';
          rqst_kwargs = rqst_kwargs_of self kw
      in if truthy fieldname \<and> truthy (py_get rqst_kwargs ''files'')
         then (case upload_file E (py_get rqst_kwargs ''files'') fieldname of
                 Inl e \<Rightarrow> Inl e
               | Inr f \<Rightarrow> Inr (Some f))
         else Inr None)"

text \<open>__init__.py, lines 62-95: the five request methods of the client.\<close>

definition get :: "'n env \<Rightarrow> connector \<Rightarrow> ('n, response option) operation" where
  "get E self = request E self ''GET''"

definition post :: "'n env \<Rightarrow> connector \<Rightarrow> ('n, response option) operation" where
  "post E self = request E self ''POST''"

text \<open>decorators.py, lines 54-93. The wrapper fetches with \<open>self.get\<close> and does not call
  the operation it decorates. \<open>page_step\<close> is the body of the loop after the fetch
  (lines 79-89): it returns the records to yield, the keyword arguments of the next
  fetch and the new value of the loop flag. \<open>objects[-1]\<close> is \<open>py_last\<close>.\<close>

fun py_last :: "pyval \<Rightarrow> exn + pyval" where
  "py_last (PList xs) = (if xs = [] then Inl PyIndexError else Inr (last xs))"
| "py_last (PTuple xs) = (if xs = [] then Inl PyIndexError else Inr (last xs))"
| "py_last (PStr s) = (if s = [] then Inl PyIndexError else Inr (PStr [last s]))"
| "py_last (PDict kvs) = Inl PyKeyError"
| "py_last v = Inl PyTypeError"

definition page_step :: "response option \<Rightarrow> kwargs \<Rightarrow> exn + pyval list \<times> kwargs \<times> bool" where
  "page_step res kw =
     (case res of
        None \<Rightarrow> Inl PyAttributeError
      | Some r \<Rightarrow>
     (case response_json r of
        Inl e \<Rightarrow> Inl e
      | Inr json_data \<Rightarrow>
     (case json_data of
        PDict body \<Rightarrow>
          (let objects = py_get_default body ''data'' (PList []) in
           if truthy objects then
             (case py_last objects of
                Inl e \<Rightarrow> Inl e
              | Inr last_object \<Rightarrow>
             (case py_dict_get last_object ''id'' of
                Inl e \<Rightarrow> Inl e
              | Inr ident \<Rightarrow>
             (case py_iter objects of
                Inl e \<Rightarrow> Inl e
              | Inr objs \<Rightarrow>
                  Inr (objs, py_set kw ''starting_after'' ident,
                       truthy (py_get_default body ''has_more'' (PBool False))))))
           else Inr ([], kw, False))
      | _ \<Rightarrow> Inl PyAttributeError)))"

text \<open>The generator, consumed to its end: the records it yielded, the exception that
  ended it (if one did) and the world it left. A loop that never ends has no result.\<close>

partial_function (option) paginate_loop ::
  "'n env \<Rightarrow> connector \<Rightarrow> string list \<Rightarrow> kwargs \<Rightarrow> pyval list \<Rightarrow> 'n world
     \<Rightarrow> (pyval list \<times> exn option \<times> 'n world) option" where
  "paginate_loop E self args kw yielded w =
     (case get E self args kw w of
        (Inl e, w1) \<Rightarrow> Some (yielded, Some e, w1)
      | (Inr res, w1) \<Rightarrow>
          (case page_step res kw of
             Inl e \<Rightarrow> Some (yielded, Some e, w1)
           | Inr (objs, kw1, again) \<Rightarrow>
               if again then paginate_loop E self args kw1 (yielded @ objs) w1
               else Some (yielded @ objs, None, w1)))"

declare paginate_loop.simps [code]

definition paginate ::
  "'n env \<Rightarrow> connector \<Rightarrow> string list \<Rightarrow> kwargs \<Rightarrow> 'n world
     \<Rightarrow> (pyval list \<times> exn option \<times> 'n world) option" where
  "paginate E self args kw w =
     (let limit = py_get_default kw ''limit'' (PInt 100);
          starting_after = py_get_default kw ''starting_after'' (PInt 0);
          direction = py_get_default kw ''direction'' (PStr ''asc'');
          kw1 = py_setdefault kw ''limit'' limit;
          kw2 = py_setdefault kw1 ''starting_after'' starting_after;
          kw3 = py_setdefault kw2 ''direction'' direction
      in if \<not> dry_run self then paginate_loop E self args kw3 [] w
         else (case get E self args kw3 w of
                 (Inl e, w1) \<Rightarrow> Some ([], Some e, w1)
               | (Inr res, w1) \<Rightarrow> Some ([], None, w1)))"

section \<open>Client construction (__init__.py)\<close>

text \<open>
  A token is given as a string or as a \<open>pathlib.Path\<close>. The file system answers a path
  with the contents of the regular file there, with \<open>None\<close> when there is no regular file,
  or with the \<open>OSError\<close> the operating system raises for a path it refuses (a name of more
  than 255 bytes, for one), which \<open>Path.is_file\<close> passes on.
\<close>

datatype token = TStr string | TPath string

type_synonym files = "string \<Rightarrow> exn + string option"

text \<open>__init__.py, lines 47-51.\<close>

definition token_is_file :: "files \<Rightarrow> token \<Rightarrow> exn + bool" where
  "token_is_file fs tkn =
     (case fs (case tkn of TStr p \<Rightarrow> p | TPath p \<Rightarrow> p) of
        Inl e \<Rightarrow> Inl e
      | Inr found \<Rightarrow> Inr (found \<noteq> None))"

text \<open>\<open>Path.open(mode, encoding=enc)\<close> followed by \<open>read()\<close>: \<open>io.open\<close> refuses an encoding
  for a binary mode with \<open>ValueError\<close>.\<close>

definition path_open_read :: "files \<Rightarrow> string \<Rightarrow> string \<Rightarrow> string option \<Rightarrow> exn + string" where
  "path_open_read fs p mode enc =
     (if CHR ''b'' \<in> set mode \<and> enc \<noteq> None then Inl PyValueError
      else (case fs p of
              Inl e \<Rightarrow> Inl e
            | Inr None \<Rightarrow> Inl (FileNotFound p)
            | Inr (Some contents) \<Rightarrow> Inr contents))"

text \<open>__init__.py, lines 53-60, with the default arguments \<open>_mode = "rb"\<close> and
  \<open>_enc = "utf-8"\<close>. A string has no method \<open>open\<close> and a path has no method \<open>strip\<close>.\<close>

definition read_token :: "files \<Rightarrow> token \<Rightarrow> exn + string" where
  "read_token fs tkn =
     (case token_is_file fs tkn of
        Inl e \<Rightarrow> Inl e
      | Inr is_file \<Rightarrow>
          if is_file then
            (case tkn of
               TStr p \<Rightarrow> Inl PyAttributeError
             | TPath p \<Rightarrow>
                 (case path_open_read fs p ''rb'' (Some ''utf-8'') of
                    Inl e \<Rightarrow> Inl e
                  | Inr contents \<Rightarrow> Inr (strip contents)))
          else
            (case tkn of
               TStr s \<Rightarrow> Inr (strip s)
             | TPath p \<Rightarrow> Inl PyAttributeError))"

text \<open>__init__.py, lines 32-45: the constructor keeps the given token, or the class
  attribute \<open>_TOKEN\<close> when it is \<open>None\<close> or empty, and \<open>_initialise_session\<close> stores the
  token read from it as the user name of the session's basic authentication.\<close>

definition initialise_session :: "files \<Rightarrow> token \<Rightarrow> exn + string" where
  "initialise_session fs tkn = read_token fs tkn"

definition connector_init :: "files \<Rightarrow> token \<Rightarrow> token option \<Rightarrow> exn + string" where
  "connector_init fs class_token tkn =
     initialise_session fs
       (case tkn of None \<Rightarrow> class_token | Some (TStr s) \<Rightarrow> (if s = [] then class_token else TStr s)
        | Some (TPath p) \<Rightarrow> TPath p)"

section \<open>Endpoint tables (endpoints/apps.py, endpoints/devices.py)\<close>

text \<open>endpoints/apps.py, lines 17-38, and the \<open>create\<close> operation, lines 52-61.\<close>

definition Apps_method_kwargs :: "(string \<times> method_conf) list" where
  "Apps_method_kwargs =
     [(''list_all'', no_conf),
      (''create'', no_conf\<lparr>
          any_params := Some [''app_store_id'', ''bundle_id'', ''binary''],
          inc_params := Some [IGroup [''app_store_id'', ''bundle_id'', ''binary''],
                              IGroup [''app_store_id'', ''bundle_id'', ''name'']],
          file_param := Some ''binary''\<rparr>),
      (''update'', no_conf\<lparr>
          any_params := Some [''binary'', ''deploy_to'', ''name''],
          file_param := Some ''binary'',
          val_params := Some [(''deploy_to'', [SStr ''all'', SStr ''none'', SStr ''outdated''])]\<rparr>)]"

text \<open>An operation declared as \<open>def op(self, **kwargs)\<close> takes no positional argument.
  One declared as \<open>def op(self, an_id, **kwargs)\<close> is reached through \<open>url_suffixes\<close>, which
  passes it exactly one; Python refuses the call when the keywords name that parameter
  again. Both pass what they got to \<open>self.post\<close>.\<close>

definition post_no_args :: "'n env \<Rightarrow> connector \<Rightarrow> ('n, response option) operation" where
  "post_no_args E self args kw w = (if args = [] then post E self [] kw w else (Inl PyTypeError, w))"

definition post_one_arg :: "'n env \<Rightarrow> connector \<Rightarrow> string \<Rightarrow> ('n, response option) operation" where
  "post_one_arg E self id_name args kw w =
     (case args of
        [an_id] \<Rightarrow> if has_key kw id_name then (Inl PyTypeError, w) else post E self [an_id] kw w
      | _ \<Rightarrow> (Inl PyTypeError, w))"

definition Apps_create :: "'n env \<Rightarrow> connector \<Rightarrow> ('n, response option) operation" where
  "Apps_create E self = method_params E Apps_method_kwargs ''create'' (post_no_args E self)"

text \<open>endpoints/devices.py, lines 18-83, and the \<open>lock\<close> and \<open>wipe\<close> operations, lines
  177-187 and 239-248.\<close>

definition Devices_method_kwargs :: "(string \<times> method_conf) list" where
  "Devices_method_kwargs =
     [(''list_all'', no_conf),
      (''retrieve'', no_conf),
      (''create'', no_conf\<lparr>req_params := Some [''name'']\<rparr>),
      (''update'', no_conf\<lparr>any_params := Some [''device_name'', ''name'']\<rparr>),
      (''delete_user'', no_conf\<lparr>req_params := Some [''user_id'']\<rparr>),
      (''reboot'', no_conf\<lparr>val_params := Some
          [(''rebuild_kernel_cache'', [SBool True, SBool False]),
           (''notify_user'', [SBool True, SBool False])]\<rparr>),
      (''lock'', no_conf),
      (''set_admin_password'', no_conf\<lparr>req_params := Some [''new_password'']\<rparr>),
      (''wipe'', no_conf),
      (''update_os'', no_conf\<lparr>val_params := Some
          [(''os_update_mode'', [SStr ''download_only'', SStr ''force_update'',
              SStr ''install_asap'', SStr ''smart_update'', SStr ''notify_only'']),
           (''version_type'', [SStr ''latest_major_version'', SStr ''latest_minor_version''])]\<rparr>),
      (''set_timezone'', no_conf\<lparr>req_params := Some [''time_zone'']\<rparr>),
      (''set_device_attributes'', no_conf\<lparr>req_params := Some [''attr_name'', ''value'']\<rparr>),
      (''set_multiple_device_attributes'', no_conf\<lparr>req_params := Some [''json'']\<rparr>),
      (''enable_lost_mode'', no_conf\<lparr>any_params := Some [''message'', ''phone_number'', ''footnote'']\<rparr>)]"

definition Devices_create :: "'n env \<Rightarrow> connector \<Rightarrow> ('n, response option) operation" where
  "Devices_create E self = method_params E Devices_method_kwargs ''create'' (post_no_args E self)"

definition Devices_lock :: "'n env \<Rightarrow> connector \<Rightarrow> ('n, response option) operation" where
  "Devices_lock E self =
     method_params E Devices_method_kwargs ''lock''
       (validate_pin ''pin'' 6 ''lock''
          (url_suffixes E ''lock'' [] (post_one_arg E self ''device_id'')))"

definition Devices_wipe :: "'n env \<Rightarrow> connector \<Rightarrow> ('n, response option) operation" where
  "Devices_wipe E self =
     method_params E Devices_method_kwargs ''wipe''
       (validate_pin ''pin'' 6 ''wipe''
          (url_suffixes E ''wipe'' [] (post_one_arg E self ''device_id'')))"

text \<open>endpoints/devices.py, lines 308-315: the operation \<open>set_device_attribute\<close>, which
  passes what it got to \<open>self.get\<close>. The table has no entry under its name; the required
  parameters its docstring lists are declared under \<open>set_device_attributes\<close>.\<close>

definition get_one_arg :: "'n env \<Rightarrow> connector \<Rightarrow> string \<Rightarrow> ('n, response option) operation" where
  "get_one_arg E self id_name args kw w =
     (case args of
        [an_id] \<Rightarrow> if has_key kw id_name then (Inl PyTypeError, w) else get E self [an_id] kw w
      | _ \<Rightarrow> (Inl PyTypeError, w))"

definition Devices_set_device_attribute :: "'n env \<Rightarrow> connector \<Rightarrow> ('n, response option) operation" where
  "Devices_set_device_attribute E self =
     method_params E Devices_method_kwargs ''set_device_attribute''
       (url_suffixes E ''custom_attribute_values'' [''attr_name'']
          (get_one_arg E self ''device_id''))"

text \<open>endpoints/account.py, lines 47-65 (and endpoints/dep_servers.py, lines 75-93): the
  push certificate's table has the one entry \<open>update\<close>, and its one decorated operation is
  \<open>push_certificate_update\<close>.\<close>

definition PushCertificate_method_kwargs :: "(string \<times> method_conf) list" where
  "PushCertificate_method_kwargs =
     [(''update'', no_conf\<lparr>req_params := Some [''file''], file_param := Some ''file''\<rparr>)]"

definition PushCertificate_push_certificate_update ::
  "'n env \<Rightarrow> connector \<Rightarrow> ('n, response option) operation" where
  "PushCertificate_push_certificate_update E self =
     method_params E PushCertificate_method_kwargs ''push_certificate_update'' (post_no_args E self)"

section \<open>Test doubles\<close>

text \<open>
  A scripted service: the state of the network is the list of responses still to be
  served and the calls received so far; each call is logged and answered by the next
  response, and a call made after the script has run out fails.
\<close>

definition scripted_request :: "call \<Rightarrow> response list \<times> call list \<Rightarrow> (exn + response) \<times> (response list \<times> call list)" where
  "scripted_request c st =
     (case fst st of
        [] \<Rightarrow> (Inl ConnectionFailure, ([], snd st @ [c]))
      | r # rs \<Rightarrow> (Inr r, (rs, snd st @ [c])))"

text \<open>The limit of the usual file systems on one name of a path.\<close>

definition name_too_long :: "string \<Rightarrow> bool" where
  "name_too_long p = list_ex (\<lambda>name. 255 < length name) (split_on CHR ''/'' p)"

definition scripted_env :: "(response list \<times> call list) env" where
  "scripted_env =
     \<lparr>session_request = scripted_request,
      path_resolve = (\<lambda>p. p),
      path_open_rb = (\<lambda>p. True),
      path_exists = (\<lambda>p. if name_too_long p then Inl (PyOSError p) else Inr True),
      run_pkgutil = (\<lambda>p. Inr (0, [])),
      py_repr = (\<lambda>v. [])\<rparr>"

definition scripted_world :: "response list \<Rightarrow> (response list \<times> call list) world" where
  "scripted_world rs = \<lparr>mounted = None, printed = [], net = (rs, [])\<rparr>"

definition test_connector :: "string \<Rightarrow> connector" where
  "test_connector ep =
     \<lparr>api_vers = ''v1'', endpoint = ep, dry_run = False,
      HTTP_CONNECT_TIMEOUT = 5, HTTP_READ_TIMEOUT = 5,
      HTTP_MAX_RETRIES = 3, HTTP_RETRY_BACKOFF = 1\<rparr>"

text \<open>An environment that also keeps the calls its transport receives.\<close>

definition recording :: "'n env \<Rightarrow> ('n \<times> call list) env" where
  "recording E =
     \<lparr>session_request = (\<lambda>c st. (fst (session_request E c (fst st)),
                                (snd (session_request E c (fst st)), snd st @ [c]))),
      path_resolve = path_resolve E,
      path_open_rb = path_open_rb E,
      path_exists = path_exists E,
      run_pkgutil = run_pkgutil E,
      py_repr = py_repr E\<rparr>"

text \<open>The cursor a call carries: the entry \<open>starting_after\<close> of its query parameters.\<close>

definition cursor_of :: "call \<Rightarrow> pyval" where
  "cursor_of c =
     (case py_get (c_kwargs c) ''params'' of
        PDict ps \<Rightarrow> py_get ps ''starting_after''
      | _ \<Rightarrow> PNone)"

text \<open>The two pages of the pagination example, an error payload, and a file system
  with one token file (its contents end with a line feed).\<close>

definition page1 :: response where
  "page1 = \<lparr>status_code = 200, json_body = Some (PDict
     [(''data'', PList [PDict [(''id'', PInt 1)], PDict [(''id'', PInt 2)]]),
      (''has_more'', PBool True)])\<rparr>"

definition page2 :: response where
  "page2 = \<lparr>status_code = 200, json_body = Some (PDict
     [(''data'', PList [PDict [(''id'', PInt 3)]]),
      (''has_more'', PBool False)])\<rparr>"

definition error_response :: "int \<Rightarrow> response" where
  "error_response code = \<lparr>status_code = code, json_body = Some (PDict
     [(''errors'', PList [PDict [(''title'', PStr ''object not found'')]])])\<rparr>"

definition token_files :: files where
  "token_files =
     (\<lambda>p. if name_too_long p then Inl (PyOSError p)
          else if p = ''/tmp/simplemdm_token'' then Inr (Some (''abc123'' @ [CHR 0x0A]))
          else Inr None)"

section \<open>Required parameters\<close>

lemma validate_required_missing:
  "p \<in> set req \<Longrightarrow> \<not> has_key kw p \<Longrightarrow>
   \<exists>q. q \<in> set req \<and> \<not> has_key kw q \<and>
       validate_required kw req fn_name = Inl (MissingRequired fn_name q)"
  by (induction req) auto

text \<open>
  When the table holds an entry under the name of the operation, that entry declares
  required parameters and the call leaves one of them out, \<open>method_params\<close> raises the
  missing-required-parameter error for a parameter of the declared set that the call
  lacks. The result does not depend on the decorated function and the world is the one
  the call started in: the function, and with it the transport, is not invoked.
\<close>

lemma method_params_missing_required:
  assumes entry: "map_of table fn_name = Some conf"
      and declared: "req_params conf = Some req"
      and member: "p \<in> set req"
      and missing: "\<not> has_key kw p"
  shows "\<exists>q. q \<in> set req \<and> \<not> has_key kw q \<and>
           method_params E table fn_name fn args kw w = (Inl (MissingRequired fn_name q), w)"
proof -
  from member have nonempty: "req \<noteq> []" by auto
  from validate_required_missing [OF member missing, of fn_name]
  obtain q where q: "q \<in> set req" "\<not> has_key kw q"
    and raised: "validate_required kw req fn_name = Inl (MissingRequired fn_name q)"
    by blast
  have "method_params E table fn_name fn args kw w = (Inl (MissingRequired fn_name q), w)"
    by (simp add: method_params_def entry declared nonempty raised)
  with q show ?thesis by blast
qed

lemma Devices_create_missing_name:
  "Devices_create scripted_env (test_connector ''devices'') [] [(''group_id'', PInt 7)]
     (scripted_world [\<lparr>status_code = 201, json_body = None\<rparr>])
   = (Inl (MissingRequired ''create'' ''name''),
      \<lparr>mounted = None, printed = [], net = ([\<lparr>status_code = 201, json_body = None\<rparr>], [])\<rparr>)"
proof -
  have entry: "map_of Devices_method_kwargs ''create'' = Some (no_conf\<lparr>req_params := Some [''name'']\<rparr>)"
    by (simp add: Devices_method_kwargs_def)
  have declared: "req_params (no_conf\<lparr>req_params := Some [''name'']\<rparr>) = Some [''name'']"
    by simp
  have member: "''name'' \<in> set [''name'']" by simp
  have missing: "\<not> has_key [(''group_id'', PInt 7)] ''name''"
    by (simp add: has_key_def)
  from method_params_missing_required [OF entry declared member missing,
      where E = scripted_env and fn = "post_no_args scripted_env (test_connector ''devices'')"
        and args = "[]" and w = "scripted_world [\<lparr>status_code = 201, json_body = None\<rparr>]"]
  show ?thesis
    by (simp add: Devices_create_def scripted_world_def missing)
qed

text \<open>
  C7. The check is made only for the entry the table holds under the operation's own
  name. \<open>Devices.set_device_attribute\<close> has its required parameters \<open>attr_name\<close> and \<open>value\<close>
  declared under the key \<open>set_device_attributes\<close>, and the table has no entry for the name
  of the operation: a call with the device id alone raises nothing, and the scripted
  service receives one GET request and answers it. \<open>PushCertificate.push_certificate_update\<close>,
  whose required \<open>file\<close> is declared under the key \<open>update\<close>, sends its POST request
  without it in the same way.
\<close>

theorem set_device_attribute_not_validated:
  "map_of Devices_method_kwargs ''set_device_attribute'' = None
   \<and> map_option req_params (map_of Devices_method_kwargs ''set_device_attributes'')
       = Some (Some [''attr_name'', ''value''])
   \<and> fst (Devices_set_device_attribute scripted_env (test_connector ''devices'') [''42''] []
            (scripted_world [\<lparr>status_code = 200, json_body = None\<rparr>]))
       = Inr (Some \<lparr>status_code = 200, json_body = None\<rparr>)
   \<and> map (\<lambda>c. (c_verb c, c_url c))
         (snd (net (snd (Devices_set_device_attribute scripted_env (test_connector ''devices'')
            [''42''] [] (scripted_world [\<lparr>status_code = 200, json_body = None\<rparr>])))))
       = [(''GET'', ''https://a.simplemdm.com/api/v1/devices/42/custom_attribute_values'')]
   \<and> fst (PushCertificate_push_certificate_update scripted_env
            (test_connector ''push_certificate'') [] []
            (scripted_world [\<lparr>status_code = 200, json_body = None\<rparr>]))
       = Inr (Some \<lparr>status_code = 200, json_body = None\<rparr>)
   \<and> map (\<lambda>c. (c_verb c, c_url c))
         (snd (net (snd (PushCertificate_push_certificate_update scripted_env
            (test_connector ''push_certificate'') [] []
            (scripted_world [\<lparr>status_code = 200, json_body = None\<rparr>])))))
       = [(''POST'', ''https://a.simplemdm.com/api/v1/push_certificate'')]"
  by code_simp

section \<open>Incompatible parameters\<close>

lemma incompatible_hits_groups:
  "incompatible_hits kw (map IGroup groups) bad_combos = []"
  by (auto simp: incompatible_hits_def)

text \<open>
  C3. A call of the apps \<open>create\<close> operation with \<open>app_store_id\<close> and \<open>bundle_id\<close>, two
  parameters of the same declared group, passes \<open>method_params\<close>: no error is raised and
  the call goes on to \<open>self.post\<close> with the keyword arguments unchanged. So does a call
  with \<open>app_store_id\<close> and \<open>binary\<close>, which the scripted service answers. Line 61 of
  validators.py tests \<open>kwarg in inc_params\<close>, and \<open>inc_params\<close> holds the groups, not the
  names: whatever the keyword arguments are, the loops find nothing when \<open>inc_params\<close> is
  made of groups (\<open>incompatible_hits_groups\<close>).
\<close>

theorem Apps_create_incompatible_not_raised:
  "Apps_create E self []
     [(''app_store_id'', PStr ''1090161858''), (''bundle_id'', PStr ''foo.example.org'')] w
   = post E self []
     [(''app_store_id'', PStr ''1090161858''), (''bundle_id'', PStr ''foo.example.org'')] w
   \<and> fst (Apps_create scripted_env (test_connector ''apps'') []
            [(''app_store_id'', PStr ''1090161858''), (''binary'', PStr ''/tmp/app.pkg'')]
            (scripted_world [\<lparr>status_code = 201, json_body = None\<rparr>]))
     = Inr (Some \<lparr>status_code = 201, json_body = None\<rparr>)"
proof -
  have names: "Apps_create E self []
     [(''app_store_id'', PStr ''1090161858''), (''bundle_id'', PStr ''foo.example.org'')] w
   = post E self []
     [(''app_store_id'', PStr ''1090161858''), (''bundle_id'', PStr ''foo.example.org'')] w"
    by (simp add: Apps_create_def Apps_method_kwargs_def method_params_def no_conf_def
        validate_any_def has_key_def validate_incompatible_def generate_bad_combinations_def
        incompatible_hits_def file_check_def file_switch_def py_get_def py_get_default_def
        post_no_args_def)
  have upload: "fst (Apps_create scripted_env (test_connector ''apps'') []
            [(''app_store_id'', PStr ''1090161858''), (''binary'', PStr ''/tmp/app.pkg'')]
            (scripted_world [\<lparr>status_code = 201, json_body = None\<rparr>]))
     = Inr (Some \<lparr>status_code = 201, json_body = None\<rparr>)"
    by code_simp
  from names upload show ?thesis by (rule conjI)
qed

section \<open>URL building\<close>

lemma urljoin_drops_empty:
  "urljoin paths base = urljoin (filter (\<lambda>p. p \<noteq> []) paths) base"
  by (simp add: urljoin_def)

text \<open>
  C4. For the spec's example \<open>urljoin\<close> returns the expected URL, and an empty segment is
  dropped; but a segment that starts with a slash leaves a doubled slash in the path,
  which the pattern of line 58 does not match. What that pattern does match is the text
  \<open>/2,\<close>, so the segment \<open>2,3\<close> loses its first two characters.
\<close>

theorem urljoin_keeps_doubled_slash:
  "urljoin [''v1'', ''devices'', ''42'', ''profiles''] ''https://a.simplemdm.com/api''
     = ''https://a.simplemdm.com/api/v1/devices/42/profiles''
   \<and> urljoin [''v1'', [], ''devices''] ''https://a.simplemdm.com/api''
     = ''https://a.simplemdm.com/api/v1/devices''
   \<and> generate_url (test_connector ''devices'') [''/42'']
     = ''https://a.simplemdm.com/api/v1/devices//42''
   \<and> generate_url (test_connector ''devices'') [''2,3'']
     = ''https://a.simplemdm.com/api/v1/devices/3''"
  by (simp add: urljoin_def generate_url_def fslash_match_def BASE_URL_def test_connector_def)

section \<open>PIN validation\<close>

lemma validate_pin_ignores_operation:
  "validate_pin param len fn_name fn args kw w = validate_pin param len fn_name fn' args kw w"
  by (simp add: validate_pin_def)

lemma validate_pin_keeps_world:
  "snd (validate_pin param len fn_name fn args kw w) = w"
  by (simp add: validate_pin_def split: sum.splits)

text \<open>
  C2. \<open>Devices.lock\<close> with the keyword \<open>pin\<close> returns \<open>None\<close> in the world it started in,
  whatever the transport is, for the well-formed pin \<open>123456\<close> and for the five-character
  pin \<open>12345\<close> alike: the validator reads the pin from the dictionary under \<open>params\<close>, a
  keyword \<open>pin\<close> is never checked, and the wrapper returns without calling the operation.
  With the pin under \<open>params\<close> the checks do run: \<open>123456\<close> passes them and the operation is
  still not called; \<open>12345\<close> and \<open>12a456\<close> raise. For every input the wrapper's result is
  the same whatever the decorated operation is, and the world is left as it was
  (\<open>validate_pin_ignores_operation\<close>, \<open>validate_pin_keeps_world\<close>).
\<close>

theorem Devices_lock_never_posts:
  "Devices_lock E self [''42''] [(''pin'', PStr ''123456'')] w = (Inr None, w)
   \<and> Devices_lock E self [''42''] [(''pin'', PStr ''12345'')] w = (Inr None, w)
   \<and> Devices_lock E self [''42''] [(''params'', PDict [(''pin'', PStr ''123456'')])] w = (Inr None, w)
   \<and> Devices_lock E self [''42''] [(''params'', PDict [(''pin'', PStr ''12345'')])] w
       = (Inl (PinLength ''lock'' ''pin'' 6), w)
   \<and> Devices_lock E self [''42''] [(''params'', PDict [(''pin'', PStr ''12a456'')])] w
       = (Inl (PinNonNumeric ''lock'' ''pin''), w)"
  by (simp add: Devices_lock_def Devices_method_kwargs_def method_params_def no_conf_def
      file_check_def file_switch_def validate_pin_def py_get_def py_get_default_def
      isdigit_def digit_char_def)

section \<open>Pagination\<close>

text \<open>One turn of the loop: a page with no records ends it, and so does a page whose
  \<open>has_more\<close> is false, after its records have been yielded.\<close>

lemma paginate_loop_stops_on_empty:
  assumes "get E self args kw w = (Inr (Some r), w1)"
      and "json_body r = Some (PDict body)"
      and "\<not> truthy (py_get_default body ''data'' (PList []))"
  shows "paginate_loop E self args kw yielded w = Some (yielded, None, w1)"
  by (subst paginate_loop.simps) (simp add: assms page_step_def response_json_def)

lemma paginate_loop_stops_on_no_more:
  assumes "get E self args kw w = (Inr (Some r), w1)"
      and "json_body r = Some (PDict body)"
      and "py_get_default body ''data'' (PList []) = PList objs"
      and "objs \<noteq> []"
      and "last objs = PDict last_obj"
      and "\<not> truthy (py_get_default body ''has_more'' (PBool False))"
  shows "paginate_loop E self args kw yielded w = Some (yielded @ objs, None, w1)"
  by (subst paginate_loop.simps) (simp add: assms page_step_def response_json_def)

text \<open>A scripted service has finitely many answers and every fetch that succeeds
  uses one up, so the generator always comes to an end against it.\<close>

lemma scripted_get_consumes:
  assumes "get scripted_env self args kw w = (Inr (Some r), w1)"
  shows "length (fst (net w1)) < length (fst (net w))"
  using assms
  by (auto simp: get_def request_def Let_def scripted_env_def scripted_request_def
      split: sum.splits if_splits prod.splits list.splits)

lemma paginate_loop_scripted_terminates:
  "\<exists>res. paginate_loop scripted_env self args kw yielded w = Some res"
proof (induction "length (fst (net w))" arbitrary: kw yielded w rule: less_induct)
  case less
  show ?case
  proof (cases "get scripted_env self args kw w")
    case (Pair res w1)
    show ?thesis
    proof (cases res)
      case (Inl e)
      with Pair show ?thesis
        by (subst paginate_loop.simps) simp
    next
      case (Inr ro)
      show ?thesis
      proof (cases "page_step ro kw")
        case (Inl e)
        with Pair Inr show ?thesis
          by (subst paginate_loop.simps) simp
      next
        case step: (Inr t)
        obtain objs kw1 again where t: "t = (objs, kw1, again)"
          by (cases t) auto
        show ?thesis
        proof (cases again)
          case False
          with Pair Inr step t show ?thesis
            by (subst paginate_loop.simps) simp
        next
          case True
          from step obtain r where ro: "ro = Some r"
            by (cases ro) (auto simp: page_step_def)
          from Pair Inr ro have "length (fst (net w1)) < length (fst (net w))"
            by (auto intro: scripted_get_consumes)
          from less [OF this] obtain res' where
            "paginate_loop scripted_env self args kw1 (yielded @ objs) w1 = Some res'"
            by blast
          with Pair Inr step t True show ?thesis
            by (subst paginate_loop.simps) (cases res', simp)
        qed
      qed
    qed
  qed
qed

text \<open>
  C1. Against the scripted service that answers with the two pages of the example, the
  paginator yields the records with the ids 1, 2 and 3 in that order and ends without an
  exception; the service has received exactly two calls, and the cursors they carried
  are 0 and 2. In general a fetch that returns an empty \<open>data\<close> list ends the sequence
  with what was yielded before, and a fetch whose \<open>has_more\<close> is false ends it after that
  page's records; in both cases the world is the one that fetch left, so no further fetch
  is made. (Against a service that keeps answering with full pages and a true \<open>has_more\<close>
  the loop does not end; against every scripted one it does,
  \<open>paginate_loop_scripted_terminates\<close>.)
\<close>

theorem paginate_yields_records_and_stops:
  "(case paginate scripted_env (test_connector ''devices'') [] [] (scripted_world [page1, page2]) of
      None \<Rightarrow> False
    | Some (records, err, w) \<Rightarrow>
        records = [PDict [(''id'', PInt 1)], PDict [(''id'', PInt 2)], PDict [(''id'', PInt 3)]]
        \<and> err = None
        \<and> length (snd (net w)) = 2
        \<and> map cursor_of (snd (net w)) = [PInt 0, PInt 2])
   \<and> (get E self args kw w = (Inr (Some r), w1)
        \<and> json_body r = Some (PDict body)
        \<and> \<not> truthy (py_get_default body ''data'' (PList []))
      \<longrightarrow> paginate_loop E self args kw yielded w = Some (yielded, None, w1))
   \<and> (get E self args kw w = (Inr (Some r), w1)
        \<and> json_body r = Some (PDict body)
        \<and> py_get_default body ''data'' (PList []) = PList objs
        \<and> objs \<noteq> []
        \<and> last objs = PDict last_obj
        \<and> \<not> truthy (py_get_default body ''has_more'' (PBool False))
      \<longrightarrow> paginate_loop E self args kw yielded w = Some (yielded @ objs, None, w1))"
proof -
  have run: "(case paginate scripted_env (test_connector ''devices'') [] [] (scripted_world [page1, page2]) of
      None \<Rightarrow> False
    | Some (records, err, w) \<Rightarrow>
        records = [PDict [(''id'', PInt 1)], PDict [(''id'', PInt 2)], PDict [(''id'', PInt 3)]]
        \<and> err = None
        \<and> length (snd (net w)) = 2
        \<and> map cursor_of (snd (net w)) = [PInt 0, PInt 2])"
    by code_simp
  show ?thesis
    by (intro conjI impI run)
       (blast intro: paginate_loop_stops_on_empty paginate_loop_stops_on_no_more)+
qed

theorem paginate_yields_records_and_stops_witness:
  "paginate_loop scripted_env (test_connector ''devices'') []
     [(''limit'', PInt 100), (''starting_after'', PInt 2), (''direction'', PStr ''asc'')]
     [PDict [(''id'', PInt 1)], PDict [(''id'', PInt 2)]]
     (scripted_world [page2])
   = Some ([PDict [(''id'', PInt 1)], PDict [(''id'', PInt 2)], PDict [(''id'', PInt 3)]], None,
           snd (get scripted_env (test_connector ''devices'') []
                  [(''limit'', PInt 100), (''starting_after'', PInt 2), (''direction'', PStr ''asc'')]
                  (scripted_world [page2])))"
proof -
  let ?kw = "[(''limit'', PInt 100), (''starting_after'', PInt 2), (''direction'', PStr ''asc'')]"
  have fetch: "get scripted_env (test_connector ''devices'') [] ?kw (scripted_world [page2])
      = (Inr (Some page2), snd (get scripted_env (test_connector ''devices'') [] ?kw (scripted_world [page2])))"
    by code_simp
  have body: "json_body page2 = Some (PDict [(''data'', PList [PDict [(''id'', PInt 3)]]), (''has_more'', PBool False)])"
    by (simp add: page2_def)
  have data: "py_get_default [(''data'', PList [PDict [(''id'', PInt 3)]]), (''has_more'', PBool False)] ''data'' (PList [])
      = PList [PDict [(''id'', PInt 3)]]"
    by (simp add: py_get_default_def)
  have no_more: "\<not> truthy (py_get_default [(''data'', PList [PDict [(''id'', PInt 3)]]), (''has_more'', PBool False)] ''has_more'' (PBool False))"
    by (simp add: py_get_default_def)
  note stops = paginate_yields_records_and_stops [THEN conjunct2, THEN conjunct2, rule_format]
  from stops [where E = scripted_env and r = page2 and last_obj = "[(''id'', PInt 3)]",
      OF conjI [OF fetch conjI [OF body conjI [OF data conjI [OF _ conjI [OF _ no_more]]]]]]
  show ?thesis by simp
qed

section \<open>Request execution\<close>

text \<open>What the wrapper's dictionaries hold under a given keyword.\<close>

lemma map_of_filter_in:
  "map_of (filter (\<lambda>kv. fst kv \<in> S) kw) k = (if k \<in> S then map_of kw k else None)"
  by (induction kw) auto

lemma map_of_filter_out_in:
  "map_of (filter (\<lambda>kv. fst kv \<notin> A \<and> fst kv \<in> B) kw) k
     = (if k \<notin> A \<and> k \<in> B then map_of kw k else None)"
  by (induction kw) auto

lemma func_kwargs_lookup:
  assumes "k \<in> set function_kwargs"
  shows "map_of (snd (consume_kwargs kw)) k = map_of kw k"
proof -
  from assms have "k \<notin> set requests_kwargs"
    by (auto simp: function_kwargs_def requests_kwargs_def)
  with assms show ?thesis
    by (simp add: consume_kwargs_def Let_def map_of_filter_out_in)
qed

lemma rqst_kwargs_lookup:
  "k \<in> set requests_kwargs \<Longrightarrow> k \<noteq> ''params'' \<Longrightarrow>
   map_of (fst (consume_kwargs kw)) k = map_of kw k"
  by (simp add: consume_kwargs_def Let_def py_set_def update_conv map_of_filter_in)

lemma map_of_py_set:
  "map_of (py_set d k v) k' = (if k' = k then Some v else map_of d k')"
  by (simp add: py_set_def update_conv)

lemma map_of_py_setdefault:
  "k' \<noteq> k \<Longrightarrow> map_of (py_setdefault d k v) k' = map_of d k'"
  by (auto simp: py_setdefault_def map_add_def split: option.splits)

lemma rqst_kwargs_of_headers:
  "map_of (rqst_kwargs_of self kw) ''headers'' =
     (if truthy (py_get kw ''json'')
      then Some (PDict [(''Content-Type'', PStr ''application/json'')])
      else map_of kw ''headers'')"
proof -
  have h: "map_of (fst (consume_kwargs kw)) ''headers'' = map_of kw ''headers''"
    by (rule rqst_kwargs_lookup) (simp_all add: requests_kwargs_def)
  have j: "map_of (fst (consume_kwargs kw)) ''json'' = map_of kw ''json''"
    by (rule rqst_kwargs_lookup) (simp_all add: requests_kwargs_def)
  show ?thesis
    by (simp add: rqst_kwargs_of_def Let_def map_of_py_set map_of_py_setdefault h j
        py_get_def py_get_default_def)
qed

lemma scripted_request_next:
  "session_request scripted_env c (r # rs, cs) = (Inr r, (rs, cs @ [c]))"
  by (simp add: scripted_env_def scripted_request_def)

text \<open>
  C5. A request that is executed (the client is not in dry-run mode, the status
  overrides are iterable, the upload file, if there is one, opens) and that the transport
  answers with a response whose status is in the effective ignore set returns that
  response as it is, whatever its body and its status: neither \<open>api_error_check\<close> nor
  \<open>raise_for_status\<close> decides the result. The witness is a response with status 500 and a
  body without errors, under the default ignore set.
\<close>

theorem request_ignored_status:
  assumes live: "\<not> dry_run self"
      and sts: "consume_func_kwargs (snd (consume_kwargs kw)) = Inr (ignore, retry)"
      and upl: "upload_of E self kw = Inr up"
      and rsp: "session_request E
                  \<lparr>c_verb = verb, c_url = generate_url self args, c_kwargs = rqst_kwargs_of self kw,
                   c_upload = up, c_adapter = Some (session_retry self retry)\<rparr> (net w) = (Inr r, n)"
      and ign: "status_in (status_code r) ignore"
  shows "request E self verb args kw w
           = (Inr (Some r), w\<lparr>mounted := Some (session_retry self retry), net := n\<rparr>)"
proof (cases "truthy (py_get (snd (consume_kwargs kw)) ''file_upload'')
              \<and> truthy (py_get (rqst_kwargs_of self kw) ''files'')")
  case True
  with upl obtain f
    where f: "upload_file E (py_get (rqst_kwargs_of self kw) ''files'')
                (py_get (snd (consume_kwargs kw)) ''file_upload'') = Inr f"
      and up: "up = Some f"
    by (auto simp: upload_of_def Let_def split: sum.splits)
  show ?thesis
    using True live sts rsp ign f up
    by (simp add: request_def Let_def)
next
  case False
  with upl have up: "up = None"
    by (auto simp: upload_of_def Let_def split: sum.splits)
  show ?thesis
    using False live sts rsp ign up
    by (auto simp add: request_def Let_def)
qed

theorem request_ignored_status_witness:
  "fst (request scripted_env (test_connector ''devices'') ''GET'' [''42''] []
          (scripted_world [\<lparr>status_code = 500, json_body = Some (PDict [(''data'', PDict [(''id'', PInt 42)])])\<rparr>]))
   = Inr (Some \<lparr>status_code = 500, json_body = Some (PDict [(''data'', PDict [(''id'', PInt 42)])])\<rparr>)"
proof -
  let ?r = "\<lparr>status_code = 500, json_body = Some (PDict [(''data'', PDict [(''id'', PInt 42)])])\<rparr>"
  have live: "\<not> dry_run (test_connector ''devices'')"
    by (simp add: test_connector_def)
  have sts: "consume_func_kwargs (snd (consume_kwargs []))
      = Inr (map PInt HTTP_IGNORE_STATUS_ERR, map PInt HTTP_RETRY_STATUS_LIST)"
    by (simp add: consume_func_kwargs_def consume_kwargs_def py_get_default_def)
  have upl: "upload_of scripted_env (test_connector ''devices'') [] = Inr None"
    by code_simp
  have ign: "status_in (status_code ?r) (map PInt HTTP_IGNORE_STATUS_ERR)"
    by (simp add: status_in_def HTTP_IGNORE_STATUS_ERR_def)
  have net: "net (scripted_world [?r]) = ([?r], [])"
    by (simp add: scripted_world_def)
  have rsp: "\<And>c. session_request scripted_env c (net (scripted_world [?r])) = (Inr ?r, ([], [] @ [c]))"
    unfolding net by (rule scripted_request_next)
  from request_ignored_status [OF live sts upl rsp ign]
  show ?thesis by simp
qed

text \<open>
  C6. A file upload that the service answers with status 422 and an \<open>errors\<close> array ends
  with the HTTP-status error, not with the API error: the upload branch of the wrapper
  (lines 125-135) calls \<open>raise_for_status\<close> only. The same answer to a request without a
  file raises the API error with the title and the status, as lines 136-143 provide. An
  upload answered with an \<open>errors\<close> array under status 204 returns the response.
\<close>

theorem upload_skips_api_error_check:
  "fst (Apps_create scripted_env (test_connector ''apps'') [] [(''binary'', PStr ''/tmp/app.pkg'')]
          (scripted_world [error_response 422]))
     = Inl (HTTPError 422)
   \<and> fst (Apps_create scripted_env (test_connector ''apps'') [] [(''bundle_id'', PStr ''org.example.app'')]
          (scripted_world [error_response 422]))
     = Inl (APIException [PStr ''object not found''] 422)
   \<and> fst (Apps_create scripted_env (test_connector ''apps'') [] [(''binary'', PStr ''/tmp/app.pkg'')]
          (scripted_world [error_response 204]))
     = Inr (Some (error_response 204))"
  by code_simp

text \<open>
  C9. Whenever the overrides a call passes can be iterated, \<open>consume_func_kwargs\<close>
  returns, the effective ignore and retry lists hold every status of the caller's
  overrides, and every default status is found in them: 200, 201, 202 and 500 in the
  ignore list, 429, 500, 502, 503 and 504 in the retry list. The keyword arguments are
  those of the call, before \<open>consume_kwargs\<close> sorts them.
\<close>

theorem consume_func_kwargs_keeps_defaults:
  assumes ign: "py_iter (py_get_default kw ''ignore_statuses'' (PList [])) = Inr ign"
      and rty: "py_iter (py_get_default kw ''retry_statuses'' (PList [])) = Inr rty"
  shows "\<exists>ignore retry.
           consume_func_kwargs (snd (consume_kwargs kw)) = Inr (ignore, retry)
           \<and> set ign \<subseteq> set ignore \<and> set rty \<subseteq> set retry
           \<and> list_all (\<lambda>s. status_in s ignore) [200, 201, 202, 500]
           \<and> list_all (\<lambda>s. status_in s retry) [429, 500, 502, 503, 504]"
proof -
  have a: "py_get_default (snd (consume_kwargs kw)) ''ignore_statuses'' (PList [])
      = py_get_default kw ''ignore_statuses'' (PList [])"
    by (simp add: py_get_default_def func_kwargs_lookup function_kwargs_def)
  have b: "py_get_default (snd (consume_kwargs kw)) ''retry_statuses'' (PList [])
      = py_get_default kw ''retry_statuses'' (PList [])"
    by (simp add: py_get_default_def func_kwargs_lookup function_kwargs_def)
  have "consume_func_kwargs (snd (consume_kwargs kw))
      = Inr (ign @ map PInt HTTP_IGNORE_STATUS_ERR, rty @ map PInt HTTP_RETRY_STATUS_LIST)"
    by (simp add: consume_func_kwargs_def a b ign rty)
  moreover have "list_all (\<lambda>s. status_in s (ign @ map PInt HTTP_IGNORE_STATUS_ERR)) [200, 201, 202, 500]"
    by (simp add: status_in_def HTTP_IGNORE_STATUS_ERR_def)
  moreover have "list_all (\<lambda>s. status_in s (rty @ map PInt HTTP_RETRY_STATUS_LIST)) [429, 500, 502, 503, 504]"
    by (simp add: status_in_def HTTP_RETRY_STATUS_LIST_def)
  ultimately show ?thesis by simp
qed

theorem consume_func_kwargs_keeps_defaults_witness:
  "\<exists>ignore retry.
     consume_func_kwargs (snd (consume_kwargs
        [(''ignore_statuses'', PList [PInt 404]), (''retry_statuses'', PTuple [PInt 408]),
         (''limit'', PInt 10)])) = Inr (ignore, retry)
     \<and> set [PInt 404] \<subseteq> set ignore \<and> set [PInt 408] \<subseteq> set retry
     \<and> list_all (\<lambda>s. status_in s ignore) [200, 201, 202, 500]
     \<and> list_all (\<lambda>s. status_in s retry) [429, 500, 502, 503, 504]"
proof -
  let ?kw = "[(''ignore_statuses'', PList [PInt 404]), (''retry_statuses'', PTuple [PInt 408]),
         (''limit'', PInt 10)]"
  have ign: "py_iter (py_get_default ?kw ''ignore_statuses'' (PList [])) = Inr [PInt 404]"
    by (simp add: py_get_default_def)
  have rty: "py_iter (py_get_default ?kw ''retry_statuses'' (PList [])) = Inr [PInt 408]"
    by (simp add: py_get_default_def)
  from consume_func_kwargs_keeps_defaults [OF ign rty] show ?thesis .
qed

text \<open>
  C10. Every call the wrapper hands to the transport (there is at most one) carries,
  under \<open>headers\<close>, exactly the JSON content type when the keyword \<open>json\<close> is truthy, and
  otherwise what the caller passed under \<open>headers\<close>, or nothing when the caller passed none.
  The transport is an arbitrary one, wrapped so that it records the calls it receives.
\<close>

theorem request_json_headers:
  assumes run: "request (recording E) self verb args kw w = (res, w1)"
  shows "\<exists>cs. snd (net w1) = snd (net w) @ cs \<and> length cs \<le> 1 \<and>
           list_all (\<lambda>c. map_of (c_kwargs c) ''headers'' =
                      (if truthy (py_get kw ''json'')
                       then Some (PDict [(''Content-Type'', PStr ''application/json'')])
                       else map_of kw ''headers'')) cs"
  using run
  by (auto simp: request_def Let_def recording_def rqst_kwargs_of_headers
      split: sum.splits if_splits prod.splits)

theorem request_json_headers_witness:
  "\<exists>c. snd (net (snd (request (recording scripted_env) (test_connector ''devices'') ''PUT'' [''42'']
            [(''json'', PDict [(''name'', PStr ''lab'')]), (''headers'', PDict [(''X-Trace'', PStr ''1'')])]
            \<lparr>mounted = None, printed = [], net = (([\<lparr>status_code = 200, json_body = None\<rparr>], []), [])\<rparr>))) = [c]
      \<and> map_of (c_kwargs c) ''headers'' = Some (PDict [(''Content-Type'', PStr ''application/json'')])"
proof -
  let ?kw = "[(''json'', PDict [(''name'', PStr ''lab'')]), (''headers'', PDict [(''X-Trace'', PStr ''1'')])]"
  let ?w = "\<lparr>mounted = None, printed = [], net = (([\<lparr>status_code = 200, json_body = None\<rparr>], []), [])\<rparr>
              :: ((response list \<times> call list) \<times> call list) world"
  let ?run = "request (recording scripted_env) (test_connector ''devices'') ''PUT'' [''42''] ?kw ?w"
  have sent: "length (snd (net (snd ?run))) = 1"
    by code_simp
  have json: "truthy (py_get ?kw ''json'')"
    by (simp add: py_get_def py_get_default_def)
  from request_json_headers [OF surjective_pairing, of scripted_env "test_connector ''devices''" "''PUT''" "[''42'']" ?kw ?w]
  obtain cs where cs: "snd (net (snd ?run)) = cs" "length cs \<le> 1"
    "list_all (\<lambda>c. map_of (c_kwargs c) ''headers'' = Some (PDict [(''Content-Type'', PStr ''application/json'')])) cs"
    using json by auto
  with sent obtain c where "cs = [c]"
    by (cases cs) auto
  with cs show ?thesis by auto
qed

section \<open>Token reading\<close>

lemma read_token_of_file:
  "token_is_file fs tkn = Inr True \<Longrightarrow>
   read_token fs tkn = Inl (case tkn of TStr p \<Rightarrow> PyAttributeError | TPath p \<Rightarrow> PyValueError)"
  by (simp add: read_token_def path_open_read_def split: token.splits)

text \<open>
  C8. With the token file \<open>/tmp/simplemdm_token\<close> present, constructing the client from
  its path raises: \<open>AttributeError\<close> when the path is given as a string, \<open>ValueError\<close> when
  it is given as a \<open>Path\<close>, since line 57 opens the file in binary mode with an encoding.
  The default token path, when no file is there, raises \<open>AttributeError\<close> too. A raw token
  string is trimmed and used. No token that names a file is ever read
  (\<open>read_token_of_file\<close>).
\<close>

theorem read_token_file_raises:
  "connector_init token_files (TPath ''/var/root/simplemdm_token'') (Some (TStr ''/tmp/simplemdm_token''))
     = Inl PyAttributeError
   \<and> connector_init token_files (TPath ''/var/root/simplemdm_token'') (Some (TPath ''/tmp/simplemdm_token''))
     = Inl PyValueError
   \<and> connector_init token_files (TPath ''/var/root/simplemdm_token'') None
     = Inl PyAttributeError
   \<and> connector_init token_files (TPath ''/var/root/simplemdm_token'') (Some (TStr (''abc123'' @ [CHR 0x0A])))
     = Inr ''abc123''"
  by (simp add: connector_init_def initialise_session_def read_token_def token_is_file_def
      token_files_def name_too_long_def path_open_read_def strip_def space_char_def)

end
